theory Spec2Isabelle
  imports Complex_Main "HOL-Library.Sublist"
begin

section \<open>Data model\<close>

text \<open>
  A JavaScript number is carried as a \<^typ>\<open>real\<close>: the code below never computes with
  coordinates, it only stores them and hands them to library functions.  A point is the
  two-element array \<^verbatim>\<open>[x, y]\<close>.
\<close>

type_synonym point = "real \<times> real"

text \<open>An exception is the value of its constructor.\<close>

datatype error = Error string | TypeError string

text \<open>
  Objects built by the libraries are kept symbolically, as the constructor call that made
  them: a shape that \<^verbatim>\<open>ShapeInfo.path(d)\<close> has parsed from path data,
  \<^verbatim>\<open>ShapeInfo.line(a, b)\<close> (kld-intersections) and \<^verbatim>\<open>new Path2D(d)\<close> (canvas, which
  accepts any argument; \<^verbatim>\<open>undefined\<close> is \<open>None\<close>).
\<close>

datatype shape = ShapePath string | ShapeLine point point

datatype path2D = Path2D "string option"

text \<open>\<^verbatim>\<open>renderAttributes?: { path?, points?, shape? }\<close> of a \<^verbatim>\<open>RenderNode\<close> (stroke.js); the
  key \<^verbatim>\<open>stroke\<close> is added by \<^verbatim>\<open>createPathFromStroke\<close>.\<close>

record renderAttrs =
  ra_path :: "path2D option"
  ra_points :: "point list option"
  ra_shape :: "shape option"
  ra_stroke :: "point list option"

text \<open>\<^verbatim>\<open>noteSvgAttributes\<close>: width and height on \<^verbatim>\<open>svg\<close>, version on \<^verbatim>\<open>notesvg\<close>,
  stroke and strokeWidth on \<^verbatim>\<open>path\<close>; an absent key is \<open>None\<close>.\<close>

record noteSvgAttrs =
  width :: "int option"
  height :: "int option"
  version :: "string option"
  stroke :: "string option"
  strokeWidth :: "real option"

text \<open>
  A child is a string (text leaf) or a node object.  \<^verbatim>\<open>attributes\<close> is the object of
  string-valued attributes in key order; \<^verbatim>\<open>noteSvgAttributes\<close> and
  \<^verbatim>\<open>renderAttributes\<close> are optional; \<^verbatim>\<open>children\<close> is always an array
  (\<^verbatim>\<open>children: Array<RenderNode | string>\<close>).
\<close>

datatype node =
    Text string
  | Elem (tagName: string)
         (attributes: "(string \<times> string) list")
         (noteSvgAttributes: "noteSvgAttrs option")
         (renderAttributes: "renderAttrs option")
         (children: "node list")

definition emptyRenderAttrs :: renderAttrs where
  "emptyRenderAttrs = \<lparr>ra_path = None, ra_points = None, ra_shape = None, ra_stroke = None\<rparr>"

definition emptyNoteSvgAttrs :: noteSvgAttrs where
  "emptyNoteSvgAttrs =
     \<lparr>width = None, height = None, version = None, stroke = None, strokeWidth = None\<rparr>"

section \<open>DocumentEditor: the scene tree\<close>

subsection \<open>filterIntersecting\<close>

text \<open>
  \<^verbatim>\<open>child.renderAttributes ||= {}; child.renderAttributes.shape ||= ShapeInfo.path(child.attributes.d)\<close>.
  \<^verbatim>\<open>ShapeInfo.path\<close> parses its argument and can throw (it does on \<^verbatim>\<open>undefined\<close>, the
  value of a missing \<^verbatim>\<open>d\<close>); it is the parameter \<open>P\<close>.  The result is the render
  attributes as the two assignments leave them (the first has been made when the second
  throws) and the shape that is tested, or the exception.
\<close>

definition cacheShape ::
  "(string option \<Rightarrow> error + shape) \<Rightarrow> (string \<times> string) list \<Rightarrow> renderAttrs option
     \<Rightarrow> renderAttrs \<times> (error + shape)" where
  "cacheShape P a r =
     (let ra = (case r of None \<Rightarrow> emptyRenderAttrs | Some x \<Rightarrow> x)
      in case ra_shape ra of
           Some s \<Rightarrow> (ra, Inr s)
         | None \<Rightarrow>
             (case P (map_of a ''d'') of
                Inl e \<Rightarrow> (ra, Inl e)
              | Inr s \<Rightarrow> (ra\<lparr>ra_shape := Some s\<rparr>, Inr s)))"

text \<open>The \<^verbatim>\<open>renderAttributes\<close> of a child after the test, and \<^verbatim>\<open>childIntersects\<close> or the
  exception: only a \<^verbatim>\<open>path\<close> is tested.\<close>

definition childRender ::
  "(string option \<Rightarrow> error + shape) \<Rightarrow> string \<Rightarrow> (string \<times> string) list
     \<Rightarrow> renderAttrs option \<Rightarrow> renderAttrs option" where
  "childRender P t a r = (if t = ''path'' then Some (fst (cacheShape P a r)) else r)"

definition childTest ::
  "(string option \<Rightarrow> error + shape) \<Rightarrow> (shape \<Rightarrow> shape \<Rightarrow> bool) \<Rightarrow> shape \<Rightarrow> string
     \<Rightarrow> (string \<times> string) list \<Rightarrow> renderAttrs option \<Rightarrow> error + bool" where
  "childTest P I sh t a r =
     (if t = ''path''
      then (case snd (cacheShape P a r) of Inl e \<Rightarrow> Inl e | Inr s \<Rightarrow> Inr (I s sh))
      else Inr False)"

text \<open>
  \<^verbatim>\<open>filterIntersecting(shape, node, removed, keepIntersecting, recurse)\<close> mutates the node
  in place and returns \<^verbatim>\<open>removed\<close>.  The model returns the exception thrown, if any,
  the node as the call leaves it, and the array \<^verbatim>\<open>removed\<close> as the call leaves it.
  \<open>filterChildren\<close> is the callback of \<^verbatim>\<open>node.children.filter\<close> run over the children
  from left to right; its list is the new \<^verbatim>\<open>children\<close> when no callback throws, and
  otherwise the old children as mutated so far, since the assignment to
  \<^verbatim>\<open>node.children\<close> is then never made.  The parameter \<open>I\<close> is
  \<^verbatim>\<open>Intersection.intersect(a, b).status === "Intersection"\<close>, taken to return.  The
  recursive call receives a fresh array \<^verbatim>\<open>[]\<close>, as in the source.  An entry of
  \<^verbatim>\<open>removed\<close> is a reference to the child, so it shows the child as the recursive call
  left it.
\<close>

fun filterIntersecting ::
    "(string option \<Rightarrow> error + shape) \<Rightarrow> (shape \<Rightarrow> shape \<Rightarrow> bool) \<Rightarrow> shape \<Rightarrow> node
       \<Rightarrow> node list \<Rightarrow> bool \<Rightarrow> bool \<Rightarrow> error option \<times> node \<times> node list"
  and filterChildren ::
    "(string option \<Rightarrow> error + shape) \<Rightarrow> (shape \<Rightarrow> shape \<Rightarrow> bool) \<Rightarrow> shape \<Rightarrow> node list
       \<Rightarrow> node list \<Rightarrow> bool \<Rightarrow> bool \<Rightarrow> error option \<times> node list \<times> node list"
where
  "filterIntersecting P I sh (Text s) removed keepIntersecting recurse = (None, Text s, removed)"
| "filterIntersecting P I sh (Elem t a n r cs) removed keepIntersecting recurse =
     (case filterChildren P I sh cs removed keepIntersecting recurse of
        (err, cs', removed') \<Rightarrow> (err, Elem t a n r cs', removed'))"
| "filterChildren P I sh [] removed keepIntersecting recurse = (None, [], removed)"
| "filterChildren P I sh (Text s # cs) removed keepIntersecting recurse =
     (case filterChildren P I sh cs removed keepIntersecting recurse of
        (err, cs', removed') \<Rightarrow> (err, Text s # cs', removed'))"
| "filterChildren P I sh (Elem t a n r kids # cs) removed keepIntersecting recurse =
     (case childTest P I sh t a r of
        Inl e \<Rightarrow> (Some e, Elem t a n (childRender P t a r) kids # cs, removed)
      | Inr childIntersects \<Rightarrow>
          (case (if recurse
                 then filterIntersecting P I sh (Elem t a n (childRender P t a r) kids) []
                        keepIntersecting recurse
                 else (None, Elem t a n (childRender P t a r) kids, [])) of
             (Some e, child, nested) \<Rightarrow>
               (Some e, child # cs, if childIntersects then removed @ [child] else removed)
           | (None, child, nested) \<Rightarrow>
               (case filterChildren P I sh cs
                       (if childIntersects then removed @ [child] else removed)
                       keepIntersecting recurse of
                  (err, cs', removed') \<Rightarrow>
                    (err,
                     if err \<noteq> None \<or> keepIntersecting \<or> \<not> childIntersects
                     then child # cs' else cs',
                     removed'))))"

text \<open>\<^verbatim>\<open>processEraserStroke(start, end)\<close> on the editor's document.\<close>

definition processEraserStroke ::
  "(string option \<Rightarrow> error + shape) \<Rightarrow> (shape \<Rightarrow> shape \<Rightarrow> bool) \<Rightarrow> point \<Rightarrow> point \<Rightarrow> node
     \<Rightarrow> error option \<times> node \<times> node list" where
  "processEraserStroke P I start end' doc =
     filterIntersecting P I (ShapeLine start end') doc [] False True"

subsection \<open>clearPaths\<close>

text \<open>
  \<^verbatim>\<open>clearPaths(node, removed, recurse)\<close>.  The guard \<^verbatim>\<open>!node.children\<close> cannot fire:
  \<^verbatim>\<open>children\<close> is always an array and an array is truthy.  Here the recursive call
  shares the caller's \<^verbatim>\<open>removed\<close> array.
\<close>

fun clearPaths :: "node \<Rightarrow> node list \<Rightarrow> bool \<Rightarrow> node \<times> node list"
  and clearChildren :: "node list \<Rightarrow> node list \<Rightarrow> bool \<Rightarrow> node list \<times> node list"
where
  "clearPaths (Text s) removed recurse = (Text s, removed)"
| "clearPaths (Elem t a n r cs) removed recurse =
     (case clearChildren cs removed recurse of
        (cs', removed') \<Rightarrow> (Elem t a n r cs', removed'))"
| "clearChildren [] removed recurse = ([], removed)"
| "clearChildren (Text s # cs) removed recurse =
     (case clearChildren cs removed recurse of
        (cs', removed') \<Rightarrow> (Text s # cs', removed'))"
| "clearChildren (Elem t a n r kids # cs) removed recurse =
     (if t = ''path'' then clearChildren cs (removed @ [Elem t a n r kids]) recurse
      else if recurse then
        (case clearPaths (Elem t a n r kids) removed recurse of
           (child, removed1) \<Rightarrow>
             (case clearChildren cs removed1 recurse of
                (cs', removed') \<Rightarrow> (child # cs', removed')))
      else
        (case clearChildren cs removed recurse of
           (cs', removed') \<Rightarrow> (Elem t a n r kids # cs', removed')))"

subsection \<open>Path data\<close>

text \<open>A fitted curve is the array \<^verbatim>\<open>[startPoint, control1, control2, endPoint]\<close>.\<close>

type_synonym curve = "point \<times> point \<times> point \<times> point"

text \<open>
  Functions that are not code of this repository are parameters, collected in one record:
  \<^item> \<open>fitCurve\<close>: \<^verbatim>\<open>window.fitCurve(points, maxError)\<close>, which returns curves or throws;
  \<^item> \<open>toFixed\<close>: \<^verbatim>\<open>Number.prototype.toFixed\<close>;
  \<^item> \<open>numToString\<close>: the conversion of a number inside a template literal;
  \<^item> \<open>shapeInfoPath\<close>: \<^verbatim>\<open>ShapeInfo.path(d)\<close>, which returns a shape or throws;
  \<^item> \<open>intersect\<close>: \<^verbatim>\<open>Intersection.intersect(a, b).status === "Intersection"\<close>;
  \<^item> \<open>txmlParse\<close>: \<^verbatim>\<open>txml.parse\<close>;
  \<^item> \<open>parseFloat\<close>: the global \<^verbatim>\<open>parseFloat\<close>, \<open>None\<close> for \<^verbatim>\<open>NaN\<close>.
\<close>

record libs =
  fitCurve :: "point list \<Rightarrow> real \<Rightarrow> error + curve list"
  toFixed :: "real \<Rightarrow> nat \<Rightarrow> string"
  numToString :: "real \<Rightarrow> string"
  shapeInfoPath :: "string option \<Rightarrow> error + shape"
  intersect :: "shape \<Rightarrow> shape \<Rightarrow> bool"
  txmlParse :: "string \<Rightarrow> node list"
  parseFloat :: "string option \<Rightarrow> real option"

text \<open>\<^verbatim>\<open>roundNumber(num, decimals = 1)\<close> of utils.js.\<close>

definition roundNumber :: "libs \<Rightarrow> real \<Rightarrow> nat \<Rightarrow> string" where
  "roundNumber L num decimals = toFixed L num decimals"

text \<open>The loop \<^verbatim>\<open>for (const curve of bezierCurves) d += ...\<close>.\<close>

fun appendCurves :: "libs \<Rightarrow> string \<Rightarrow> curve list \<Rightarrow> string" where
  "appendCurves L d [] = d"
| "appendCurves L d ((p0, c1, c2, p3) # curves) =
     appendCurves L
       (((d @ ''C '' @ roundNumber L (fst c1) 1 @ '' '' @ roundNumber L (snd c1) 1 @ '', '')
           @ roundNumber L (fst c2) 1 @ '' '' @ roundNumber L (snd c2) 1 @ '', '')
           @ roundNumber L (fst p3) 1 @ '' '' @ roundNumber L (snd p3) 1 @ '' '')
       curves"

text \<open>The loop \<^verbatim>\<open>for (let i = 1; i < stroke.length; i++) d += `L ${f(stroke[i][0])} ${f(stroke[i][1])} `\<close>,
  with \<open>f\<close> the formatting of a number.\<close>

function appendLines :: "(real \<Rightarrow> string) \<Rightarrow> point list \<Rightarrow> nat \<Rightarrow> string \<Rightarrow> string" where
  "appendLines f strokePoints i d =
     (if i < length strokePoints
      then appendLines f strokePoints (i + 1)
             (d @ ''L '' @ f (fst (strokePoints ! i)) @ '' '' @ f (snd (strokePoints ! i)) @ '' '')
      else d)"
  by pat_completeness auto
termination
  by (relation "measure (\<lambda>(f, strokePoints, i, d). length strokePoints - i)") auto

declare appendLines.simps [simp del]

text \<open>\<^verbatim>\<open>generatePathData(stroke)\<close>.  Inside the \<^verbatim>\<open>try\<close> only \<^verbatim>\<open>fitCurve\<close> can throw.\<close>

definition generatePathData :: "libs \<Rightarrow> point list \<Rightarrow> string" where
  "generatePathData L strokePoints =
     (if length strokePoints < 2 then []
      else
        (case fitCurve L strokePoints 2.0 of
           Inr bezierCurves \<Rightarrow>
             (if length bezierCurves > 0 then
                (case bezierCurves ! 0 of
                   (p0, c1, c2, p3) \<Rightarrow>
                     appendCurves L
                       ([] @ ''M '' @ roundNumber L (fst p0) 1 @ '' ''
                           @ roundNumber L (snd p0) 1 @ '' '')
                       bezierCurves)
              else
                appendLines (\<lambda>v. roundNumber L v 1) strokePoints 1
                  (''M '' @ roundNumber L (fst (strokePoints ! 0)) 1 @ '' ''
                     @ roundNumber L (snd (strokePoints ! 0)) 1 @ '' ''))
         | Inl err \<Rightarrow>
             appendLines (numToString L) strokePoints 1
               (''M '' @ numToString L (fst (strokePoints ! 0)) @ '' ''
                  @ numToString L (snd (strokePoints ! 0)) @ '' '')))"

subsection \<open>Creating and inserting a path node\<close>

text \<open>The tools of stroke.js: \<^verbatim>\<open>{type: "pen", color, diameter, tolerance}\<close> and
  \<^verbatim>\<open>{type: "eraser", diameter}\<close>.\<close>

datatype tool = Pen (color: string) (diameter: real) (tolerance: real)
              | Eraser (diameter: real)

fun toolColor :: "tool \<Rightarrow> string option" where
  "toolColor (Pen c d tol) = Some c"
| "toolColor (Eraser d) = None"

definition createPathFromStroke :: "libs \<Rightarrow> point list \<Rightarrow> tool \<Rightarrow> node" where
  "createPathFromStroke L strokePoints t =
     (let d = generatePathData L strokePoints
      in Elem ''path''
           [(''d'', d), (''fill'', ''none'')]
           (Some (emptyNoteSvgAttrs\<lparr>stroke := toolColor t, strokeWidth := Some (diameter t)\<rparr>))
           (Some (emptyRenderAttrs\<lparr>ra_path := Some (Path2D (Some d)),
                                     ra_stroke := Some strokePoints\<rparr>))
           [])"

text \<open>\<^verbatim>\<open>this.document.children.push(pathNode)\<close>; on a string, \<^verbatim>\<open>children\<close> is
  \<^verbatim>\<open>undefined\<close> and the call throws.\<close>

fun addPathToDocument :: "node \<Rightarrow> node \<Rightarrow> error + node" where
  "addPathToDocument pathNode (Text s) =
     Inl (TypeError ''Cannot read properties of undefined (reading push)'')"
| "addPathToDocument pathNode (Elem t a n r cs) = Inr (Elem t a n r (cs @ [pathNode]))"

text \<open>\<^verbatim>\<open>finalizePenStroke(stroke, tool)\<close>: the document after the call and the node
  returned.\<close>

definition finalizePenStroke :: "libs \<Rightarrow> point list \<Rightarrow> tool \<Rightarrow> node \<Rightarrow> error + node \<times> node" where
  "finalizePenStroke L strokePoints t doc =
     (let pathNode = createPathFromStroke L strokePoints t
      in case addPathToDocument pathNode doc of
           Inl e \<Rightarrow> Inl e
         | Inr doc' \<Rightarrow> Inr (doc', pathNode))"


section \<open>StrokeRenderer: live strokes\<close>

text \<open>
  An entry of \<^verbatim>\<open>liveStrokes\<close> is \<^verbatim>\<open>{ tool, stroke }\<close>.  The renderer holds the map of
  live strokes by pointer id, the document and the current tool;
  \<^verbatim>\<open>documentEditor.document\<close> is the same object as \<^verbatim>\<open>svg\<close>.  The canvas contexts
  only receive drawing calls and are left out.
\<close>

record liveStroke =
  ltool :: tool
  lstroke :: "point list"

record StrokeRenderer =
  liveStrokes :: "int \<rightharpoonup> liveStroke"
  svg :: node
  tool :: tool

text \<open>\<^verbatim>\<open>node.renderAttributes ||= {}; node.renderAttributes.path ||= new Path2D(node.attributes.d)\<close>\<close>

definition cachePath :: "(string \<times> string) list \<Rightarrow> renderAttrs option \<Rightarrow> renderAttrs" where
  "cachePath a r =
     (let ra = (case r of None \<Rightarrow> emptyRenderAttrs | Some x \<Rightarrow> x)
      in ra\<lparr>ra_path := Some (case ra_path ra of None \<Rightarrow> Path2D (map_of a ''d'') | Some p \<Rightarrow> p)\<rparr>)"

text \<open>\<^verbatim>\<open>drawNode(node, recurse = true)\<close>: what it leaves in the node; the strokes it
  paints on the back canvas are not part of the state.\<close>

fun drawNode :: "node \<Rightarrow> bool \<Rightarrow> node" where
  "drawNode (Text s) recurse = Text s"
| "drawNode (Elem t a n r cs) recurse =
     Elem t a n (if t = ''path'' then Some (cachePath a r) else r)
       (if recurse then map (\<lambda>c. drawNode c True) cs else cs)"

definition drawBack :: "StrokeRenderer \<Rightarrow> StrokeRenderer" where
  "drawBack R = R\<lparr>svg := drawNode (svg R) True\<rparr>"

text \<open>
  The pointer position \<^verbatim>\<open>[x, y]\<close> (client coordinates minus the canvas rectangle) is
  the argument \<open>p\<close> of the three handlers.  \<^verbatim>\<open>drawStrokeDiff\<close> paints on the front
  canvas only.
\<close>

definition beginStroke :: "int \<Rightarrow> point \<Rightarrow> StrokeRenderer \<Rightarrow> StrokeRenderer" where
  "beginStroke id' p R =
     R\<lparr>liveStrokes := (liveStrokes R)(id' \<mapsto> \<lparr>ltool = tool R, lstroke = [p]\<rparr>)\<rparr>"

fun isEraser :: "tool \<Rightarrow> bool" where
  "isEraser (Eraser d) = True"
| "isEraser (Pen c d tol) = False"

fun isPen :: "tool \<Rightarrow> bool" where
  "isPen (Pen c d tol) = True"
| "isPen (Eraser d) = False"

text \<open>
  \<^verbatim>\<open>moveStroke(id, event)\<close>: the exception thrown, if any, and the renderer as the call
  leaves it.  Without an entry for \<^verbatim>\<open>id\<close> the destructuring of
  \<^verbatim>\<open>this.liveStrokes[id] || {}\<close> leaves \<^verbatim>\<open>stroke\<close> undefined and the method returns.
  \<^verbatim>\<open>stroke[Math.max(0, stroke.length - 1)]\<close> is the last point, undefined for an empty
  array.  An exception of \<^verbatim>\<open>processEraserStroke\<close> leaves the method before the point
  is pushed.
\<close>

definition moveStroke ::
  "libs \<Rightarrow> int \<Rightarrow> point \<Rightarrow> StrokeRenderer \<Rightarrow> error option \<times> StrokeRenderer" where
  "moveStroke L id' p R =
     (case liveStrokes R id' of
        None \<Rightarrow> (None, R)
      | Some ls \<Rightarrow>
          (case (if isEraser (ltool ls) \<and> lstroke ls \<noteq> [] then
                   (case processEraserStroke (shapeInfoPath L) (intersect L)
                           (lstroke ls ! (length (lstroke ls) - 1)) p (svg R) of
                      (Some e, doc, removed) \<Rightarrow> (Some e, R\<lparr>svg := doc\<rparr>)
                    | (None, doc, removed) \<Rightarrow>
                        (None,
                         if length removed > 0 then drawBack (R\<lparr>svg := doc\<rparr>)
                         else R\<lparr>svg := doc\<rparr>))
                 else (None, R)) of
             (Some e, R1) \<Rightarrow> (Some e, R1)
           | (None, R1) \<Rightarrow>
               (None,
                R1\<lparr>liveStrokes := (liveStrokes R1)(id' \<mapsto> ls\<lparr>lstroke := lstroke ls @ [p]\<rparr>)\<rparr>)))"

text \<open>
  \<^verbatim>\<open>endStroke(id, event)\<close>: the exception thrown, if any, and the renderer as the call
  leaves it.  An exception of \<^verbatim>\<open>moveStroke\<close> leaves the method at once.
  \<^verbatim>\<open>const { stroke = null, tool = null } = this.liveStrokes[id]\<close> has no
  \<^verbatim>\<open>|| {}\<close>: destructuring \<^verbatim>\<open>undefined\<close> throws a TypeError.
\<close>

definition endStroke ::
  "libs \<Rightarrow> int \<Rightarrow> point \<Rightarrow> StrokeRenderer \<Rightarrow> error option \<times> StrokeRenderer" where
  "endStroke L id' p R =
     (case moveStroke L id' p R of
        (Some e, R1) \<Rightarrow> (Some e, R1)
      | (None, R1) \<Rightarrow>
          (case liveStrokes R1 id' of
             None \<Rightarrow>
               (Some (TypeError ''Cannot destructure property stroke of undefined''), R1)
           | Some ls \<Rightarrow>
               (case (if isPen (ltool ls) \<and> length (lstroke ls) \<ge> 2
                      then map_sum id fst (finalizePenStroke L (lstroke ls) (ltool ls) (svg R1))
                      else Inr (svg R1)) of
                  Inl e \<Rightarrow> (Some e, R1)
                | Inr doc \<Rightarrow>
                    (None,
                     drawBack (R1\<lparr>svg := doc,
                                  liveStrokes := (liveStrokes R1)(id' := None)\<rparr>)))))"

section \<open>utils.js\<close>

text \<open>
  Strings are lists of 8-bit characters.  \<^verbatim>\<open>trim\<close> strips white space and line
  terminators; those below U+0100 are tab, line feed, vertical tab, form feed, carriage
  return, space and no-break space.
\<close>

definition isWhiteSpace :: "char \<Rightarrow> bool" where
  "isWhiteSpace c =
     (c = CHR 0x09 \<or> c = CHR 0x0A \<or> c = CHR 0x0B \<or> c = CHR 0x0C \<or> c = CHR 0x0D
      \<or> c = CHR 0x20 \<or> c = CHR 0xA0)"

definition trim :: "string \<Rightarrow> string" where
  "trim s = rev (dropWhile isWhiteSpace (rev (dropWhile isWhiteSpace s)))"

definition startsWith :: "string \<Rightarrow> string \<Rightarrow> bool" where
  "startsWith s p = (take (length p) s = p)"

definition endsWith :: "string \<Rightarrow> string \<Rightarrow> bool" where
  "endsWith s p = (length p \<le> length s \<and> drop (length s - length p) s = p)"

definition isValidSvg :: "string \<Rightarrow> bool" where
  "isValidSvg text = (startsWith (trim text) ''<svg'' \<and> endsWith (trim text) ''</svg>'')"

text \<open>\<^verbatim>\<open>sizeStr.split('x')\<close>: the fields between the occurrences of the separator, at
  least one.\<close>

fun splitOn :: "char \<Rightarrow> string \<Rightarrow> string list" where
  "splitOn sep [] = [[]]"
| "splitOn sep (c # cs) =
     (if c = sep then [] # splitOn sep cs
      else (case splitOn sep cs of
              [] \<Rightarrow> [[c]]
            | f # fs \<Rightarrow> (c # f) # fs))"

text \<open>
  \<^verbatim>\<open>parseInt(string)\<close> with no radix: leading white space is skipped, then an optional
  sign, then \<^verbatim>\<open>0x\<close> or \<^verbatim>\<open>0X\<close> selects radix 16, and the longest run of digits of the
  radix is the value; no digit gives \<^verbatim>\<open>NaN\<close> (\<open>None\<close>).  The value is the integer itself
  (a double is exact up to \<open>2\<^sup>5\<^sup>3\<close>).
\<close>

definition digitValue :: "char \<Rightarrow> nat option" where
  "digitValue c =
     map_of [(CHR ''0'', 0), (CHR ''1'', 1), (CHR ''2'', 2), (CHR ''3'', 3), (CHR ''4'', 4),
             (CHR ''5'', 5), (CHR ''6'', 6), (CHR ''7'', 7), (CHR ''8'', 8), (CHR ''9'', 9),
             (CHR ''a'', 10), (CHR ''b'', 11), (CHR ''c'', 12), (CHR ''d'', 13),
             (CHR ''e'', 14), (CHR ''f'', 15),
             (CHR ''A'', 10), (CHR ''B'', 11), (CHR ''C'', 12), (CHR ''D'', 13),
             (CHR ''E'', 14), (CHR ''F'', 15)] c"

definition isRadixDigit :: "nat \<Rightarrow> char \<Rightarrow> bool" where
  "isRadixDigit radix c = (case digitValue c of None \<Rightarrow> False | Some v \<Rightarrow> v < radix)"

definition digitsValue :: "nat \<Rightarrow> string \<Rightarrow> nat" where
  "digitsValue radix z =
     foldl (\<lambda>acc c. acc * radix + (case digitValue c of None \<Rightarrow> 0 | Some v \<Rightarrow> v)) 0 z"

definition parseInt :: "string \<Rightarrow> int option" where
  "parseInt inputString =
     (let s = dropWhile isWhiteSpace inputString;
          sign = (case s of c # cs \<Rightarrow> (if c = CHR ''-'' then - 1 else 1) | [] \<Rightarrow> (1 :: int));
          s1 = (case s of c # cs \<Rightarrow> (if c = CHR ''+'' \<or> c = CHR ''-'' then cs else s) | [] \<Rightarrow> s);
          hex = (startsWith s1 ''0x'' \<or> startsWith s1 ''0X'');
          radix = (if hex then 16 else 10);
          s2 = (if hex then drop 2 s1 else s1);
          z = takeWhile (isRadixDigit radix) s2
      in if z = [] then None else Some (sign * int (digitsValue radix z)))"

text \<open>\<^verbatim>\<open>parseInt(dims[i]?.trim())\<close>: a missing field is \<^verbatim>\<open>undefined\<close>, which
  \<^verbatim>\<open>parseInt\<close> reads as the string \<^verbatim>\<open>"undefined"\<close>.\<close>

definition parseIntArg :: "string option \<Rightarrow> int option" where
  "parseIntArg v = (case v of None \<Rightarrow> parseInt ''undefined'' | Some s \<Rightarrow> parseInt s)"

definition field :: "string list \<Rightarrow> nat \<Rightarrow> string option" where
  "field dims i = (if i < length dims then Some (dims ! i) else None)"

text \<open>\<^verbatim>\<open>parseSizeString(sizeStr)\<close>: \<^verbatim>\<open>{ width, height }\<close> as a pair, \<^verbatim>\<open>null\<close> as
  \<open>None\<close>.\<close>

definition parseSizeString :: "string \<Rightarrow> (int \<times> int) option" where
  "parseSizeString sizeStr =
     (let dims = splitOn CHR ''x'' sizeStr;
          w = parseIntArg (map_option trim (field dims 0));
          h = parseIntArg (map_option trim (field dims 1))
      in case (w, h) of
           (Some wv, Some hv) \<Rightarrow> Some (wv, hv)
         | _ \<Rightarrow> None)"


section \<open>notesvg.js and the entry point\<close>

text \<open>\<^verbatim>\<open>delete node.attributes[key]\<close>\<close>

definition deleteKey :: "string \<Rightarrow> (string \<times> string) list \<Rightarrow> (string \<times> string) list" where
  "deleteKey k a = filter (\<lambda>kv. fst kv \<noteq> k) a"

text \<open>\<^verbatim>\<open>parseInt(v) || 0\<close>, \<^verbatim>\<open>v || undefined\<close>, \<^verbatim>\<open>v || '#000'\<close> and
  \<^verbatim>\<open>parseFloat(v) || 1\<close>: \<^verbatim>\<open>NaN\<close>, \<open>0\<close>, the empty string and \<^verbatim>\<open>undefined\<close> are
  falsy.\<close>

definition intOrZero :: "int option \<Rightarrow> int" where
  "intOrZero v = (case v of None \<Rightarrow> 0 | Some i \<Rightarrow> i)"

definition truthyString :: "string option \<Rightarrow> string option" where
  "truthyString v = (case v of None \<Rightarrow> None | Some s \<Rightarrow> (if s = [] then None else Some s))"

definition stringOr :: "string option \<Rightarrow> string \<Rightarrow> string" where
  "stringOr v dflt = (case truthyString v of None \<Rightarrow> dflt | Some s \<Rightarrow> s)"

definition realOr :: "real option \<Rightarrow> real \<Rightarrow> real" where
  "realOr v dflt = (case v of None \<Rightarrow> dflt | Some x \<Rightarrow> (if x = 0 then dflt else x))"

text \<open>\<^verbatim>\<open>transform(node)\<close> rewrites the parsed tree in place; the model returns the tree
  after the call.\<close>

fun transform :: "libs \<Rightarrow> node \<Rightarrow> node" where
  "transform L (Text s) = Text s"
| "transform L (Elem t a n r cs) =
     (if t = ''svg'' then
        Elem t (deleteKey ''height'' (deleteKey ''width'' a))
          (Some (emptyNoteSvgAttrs\<lparr>width := Some (intOrZero (parseIntArg (map_of a ''width''))),
                                   height := Some (intOrZero (parseIntArg (map_of a ''height'')))\<rparr>))
          r (map (transform L) cs)
      else if t = ''notesvg'' then
        Elem t (deleteKey ''version'' a)
          (Some (emptyNoteSvgAttrs\<lparr>version := truthyString (map_of a ''version'')\<rparr>))
          r (map (transform L) cs)
      else if t = ''path'' then
        Elem t (deleteKey ''stroke-width'' (deleteKey ''stroke'' a))
          (Some (emptyNoteSvgAttrs\<lparr>stroke := Some (stringOr (map_of a ''stroke'') ''#000''),
                   strokeWidth := Some (realOr (parseFloat L (map_of a ''stroke-width'')) 1)\<rparr>))
          r (map (transform L) cs)
      else Elem t a n r (map (transform L) cs))"

definition createDefaultDocument :: node where
  "createDefaultDocument =
     Elem ''svg''
       [(''xmlns'', ''http://www.w3.org/2000/svg''), (''style'', ''border: 2px solid #000'')]
       (Some (emptyNoteSvgAttrs\<lparr>width := Some 360, height := Some 360\<rparr>))
       None
       [Elem ''metadata'' [] (Some emptyNoteSvgAttrs) None
          [Elem ''notesvg'' [] (Some (emptyNoteSvgAttrs\<lparr>version := Some ''1.0''\<rparr>)) None []]]"

text \<open>
  \<^verbatim>\<open>deserializeDocument(svgString)\<close>: the document or the exception, together with the
  calls made to the parser and to \<^verbatim>\<open>transform\<close>, in order.
\<close>

datatype call = TxmlParse string | Transform node

definition deserializeDocument :: "libs \<Rightarrow> string \<Rightarrow> (error + node) \<times> call list" where
  "deserializeDocument L svgString =
     (if \<not> isValidSvg svgString then (Inl (Error ''Invalid SVG string''), [])
      else
        (let parsedNodes = txmlParse L svgString
         in if length parsedNodes > 0
            then (Inr (transform L (parsedNodes ! 0)),
                  [TxmlParse svgString, Transform (parsedNodes ! 0)])
            else (Inl (Error ''Failed to parse SVG''), [TxmlParse svgString])))"

section \<open>ui.js: resizing\<close>

text \<open>
  \<^verbatim>\<open>updateDocument(noteDocument, renderer)\<close>, with \<^verbatim>\<open>noteDocument\<close> the renderer's
  document.  Reading \<^verbatim>\<open>noteDocument.noteSvgAttributes.width\<close> throws when the node has
  no \<^verbatim>\<open>noteSvgAttributes\<close>; \<^verbatim>\<open>resizeCanvas\<close> throws when the root is not an
  \<^verbatim>\<open>svg\<close> element; then the back canvas is redrawn.  Saving to local storage
  serialises without adding the link, catches its own errors and changes nothing.
\<close>

fun hasNoteSvgAttributes :: "node \<Rightarrow> bool" where
  "hasNoteSvgAttributes (Text s) = False"
| "hasNoteSvgAttributes (Elem t a n r cs) = (n \<noteq> None)"

fun isSvgRoot :: "node \<Rightarrow> bool" where
  "isSvgRoot (Text s) = False"
| "isSvgRoot (Elem t a n r cs) = (t = ''svg'')"

definition updateDocument :: "StrokeRenderer \<Rightarrow> error option \<times> StrokeRenderer" where
  "updateDocument R =
     (if \<not> hasNoteSvgAttributes (svg R)
      then (Some (TypeError ''Cannot read properties of undefined (reading width)''), R)
      else if \<not> isSvgRoot (svg R)
      then (Some (Error ''Document root is not an SVG node!''), R)
      else (None, drawBack R))"

text \<open>\<^verbatim>\<open>noteDocument.noteSvgAttributes.width = size.width;
  noteDocument.noteSvgAttributes.height = size.height\<close>\<close>

fun setSize :: "int \<times> int \<Rightarrow> node \<Rightarrow> node" where
  "setSize sz (Text s) = Text s"
| "setSize sz (Elem t a n r cs) =
     Elem t a (map_option (\<lambda>ns. ns\<lparr>width := Some (fst sz), height := Some (snd sz)\<rparr>) n) r cs"

text \<open>
  The click handler installed by \<^verbatim>\<open>setupResizeButton\<close>.  \<open>answer\<close> is what
  \<^verbatim>\<open>prompt\<close> returns (\<^verbatim>\<open>null\<close> is \<open>None\<close>); \<^verbatim>\<open>answer || ""\<close> turns \<^verbatim>\<open>null\<close> into the
  empty string.  The default text of the prompt reads
  \<^verbatim>\<open>noteDocument.noteSvgAttributes.width\<close> first.
\<close>

definition setupResizeButton_click ::
  "string option \<Rightarrow> StrokeRenderer \<Rightarrow> error option \<times> StrokeRenderer" where
  "setupResizeButton_click answer R =
     (if \<not> hasNoteSvgAttributes (svg R)
      then (Some (TypeError ''Cannot read properties of undefined (reading width)''), R)
      else
        (let sizeStr = (case answer of None \<Rightarrow> [] | Some s \<Rightarrow> s)
         in case parseSizeString sizeStr of
              None \<Rightarrow> (None, R)
            | Some sz \<Rightarrow> updateDocument (R\<lparr>svg := setSize sz (svg R)\<rparr>)))"


section \<open>Notions used to state the properties\<close>

subsection \<open>Counting nodes\<close>

fun isPath :: "node \<Rightarrow> bool" where
  "isPath (Text s) = False"
| "isPath (Elem t a n r cs) = (t = ''path'')"

text \<open>The result of the intersection test that \<^verbatim>\<open>filterIntersecting\<close> makes on a child:
  positive only for a \<^verbatim>\<open>path\<close> whose (cached or freshly built) shape meets the segment.\<close>

fun testsPositive ::
  "(string option \<Rightarrow> error + shape) \<Rightarrow> (shape \<Rightarrow> shape \<Rightarrow> bool) \<Rightarrow> shape \<Rightarrow> node \<Rightarrow> bool" where
  "testsPositive P I sh (Text s) = False"
| "testsPositive P I sh (Elem t a n r cs) = (childTest P I sh t a r = Inr True)"

text \<open>The number of nodes of a tree that are not Path nodes: text leaves and elements
  other than \<^verbatim>\<open>path\<close>, the root included.\<close>

fun countNonPath :: "node \<Rightarrow> nat" where
  "countNonPath (Text s) = 1"
| "countNonPath (Elem t a n r cs) =
     (if t = ''path'' then 0 else 1) + sum_list (map countNonPath cs)"

text \<open>The number of Path nodes of a tree whose test against the segment is not positive
  (negative, or impossible because the shape cannot be built).\<close>

fun countMissed ::
  "(string option \<Rightarrow> error + shape) \<Rightarrow> (shape \<Rightarrow> shape \<Rightarrow> bool) \<Rightarrow> shape \<Rightarrow> node \<Rightarrow> nat" where
  "countMissed P I sh (Text s) = 0"
| "countMissed P I sh (Elem t a n r cs) =
     (if t = ''path'' \<and> childTest P I sh t a r \<noteq> Inr True then 1 else 0)
       + sum_list (map (countMissed P I sh) cs)"

text \<open>The number of Path nodes of a tree.\<close>

fun countPaths :: "node \<Rightarrow> nat" where
  "countPaths (Text s) = 0"
| "countPaths (Elem t a n r cs) =
     (if t = ''path'' then 1 else 0) + sum_list (map countPaths cs)"

text \<open>The invariant of the data model: a Path node has no children.\<close>

fun pathsAreLeaves :: "node \<Rightarrow> bool" where
  "pathsAreLeaves (Text s) = True"
| "pathsAreLeaves (Elem t a n r cs) =
     ((if t = ''path'' then cs = [] else True) \<and> list_all pathsAreLeaves cs)"

text \<open>No \<^verbatim>\<open>path\<close> is left where \<^verbatim>\<open>clearPaths\<close> looks: among the children of the node
  and, when recursing, below its other children.\<close>

fun cleared :: "bool \<Rightarrow> node \<Rightarrow> bool"
  and clearedChildren :: "bool \<Rightarrow> node list \<Rightarrow> bool"
where
  "cleared recurse (Text s) = True"
| "cleared recurse (Elem t a n r cs) = clearedChildren recurse cs"
| "clearedChildren recurse [] = True"
| "clearedChildren recurse (c # cs) =
     (\<not> isPath c \<and> (if recurse then cleared recurse c else True) \<and> clearedChildren recurse cs)"

subsection \<open>The scene tree without the painter's memo\<close>

text \<open>
  The node as the data model describes it: kind, attributes, \<^verbatim>\<open>noteSvgAttributes\<close>, the
  cached geometry (\<^verbatim>\<open>renderAttributes.shape\<close>) and the children.  What is left out is
  what the canvas painter keeps on a node: the \<^verbatim>\<open>Path2D\<close> object and the raw points.
\<close>

datatype sceneNode =
    SceneText string
  | SceneNode string "(string \<times> string) list" "noteSvgAttrs option" "shape option"
      "sceneNode list"

fun scene :: "node \<Rightarrow> sceneNode" where
  "scene (Text s) = SceneText s"
| "scene (Elem t a n r cs) =
     SceneNode t a n (case r of None \<Rightarrow> None | Some ra \<Rightarrow> ra_shape ra) (map scene cs)"

subsection \<open>Path commands\<close>

text \<open>
  The commands of a path string, each with the texts of its numbers:
  \<^verbatim>\<open>M x y\<close>, \<^verbatim>\<open>C x1 y1, x2 y2, x y\<close> and \<^verbatim>\<open>L x y\<close>, every command followed by a
  space.
\<close>

datatype command =
    MoveTo string string
  | CurveTo string string string string string string
  | LineTo string string

fun renderCommand :: "command \<Rightarrow> string" where
  "renderCommand (MoveTo x y) = ''M '' @ x @ '' '' @ y @ '' ''"
| "renderCommand (CurveTo x1 y1 x2 y2 x y) =
     ''C '' @ x1 @ '' '' @ y1 @ '', '' @ x2 @ '' '' @ y2 @ '', '' @ x @ '' '' @ y @ '' ''"
| "renderCommand (LineTo x y) = ''L '' @ x @ '' '' @ y @ '' ''"

definition renderCommands :: "command list \<Rightarrow> string" where
  "renderCommands cmds = concat (map renderCommand cmds)"

text \<open>\<open>encode\<close> after the specification: one move-to at the start point of the first
  segment, then one cubic-curve command per segment, every number formatted by \<open>f\<close>.\<close>

fun curveCommand :: "(real \<Rightarrow> string) \<Rightarrow> curve \<Rightarrow> command" where
  "curveCommand f (p0, c1, c2, p3) =
     CurveTo (f (fst c1)) (f (snd c1)) (f (fst c2)) (f (snd c2)) (f (fst p3)) (f (snd p3))"

fun encode :: "(real \<Rightarrow> string) \<Rightarrow> curve list \<Rightarrow> command list" where
  "encode f [] = []"
| "encode f ((p0, c1, c2, p3) # segments) =
     MoveTo (f (fst p0)) (f (snd p0)) # map (curveCommand f) ((p0, c1, c2, p3) # segments)"

text \<open>\<open>encodePolyline\<close> after the specification: a move-to at the first point, then a
  line-to for every further point.\<close>

fun encodePolyline :: "(real \<Rightarrow> string) \<Rightarrow> point list \<Rightarrow> command list" where
  "encodePolyline f [] = []"
| "encodePolyline f (p # ps) =
     MoveTo (f (fst p)) (f (snd p)) # map (\<lambda>q. LineTo (f (fst q)) (f (snd q))) ps"


subsection \<open>The root without its size\<close>

text \<open>The node with the \<^verbatim>\<open>width\<close> and \<^verbatim>\<open>height\<close> of its \<^verbatim>\<open>noteSvgAttributes\<close>
  blanked; everything else is kept.\<close>

fun forgetSize :: "node \<Rightarrow> node" where
  "forgetSize (Text s) = Text s"
| "forgetSize (Elem t a n r cs) =
     Elem t a (map_option (\<lambda>ns. ns\<lparr>width := None, height := None\<rparr>) n) r cs"

fun rootSize :: "node \<Rightarrow> (int option \<times> int option) option" where
  "rootSize (Text s) = None"
| "rootSize (Elem t a n r cs) = map_option (\<lambda>ns. (width ns, height ns)) n"

subsection \<open>Trees that have been drawn\<close>

text \<open>Every \<^verbatim>\<open>path\<close> element carries its \<^verbatim>\<open>Path2D\<close>, as after a redraw of the back
  canvas.\<close>

fun painted :: "node \<Rightarrow> bool" where
  "painted (Text s) = True"
| "painted (Elem t a n r cs) =
     ((if t = ''path''
       then (case r of None \<Rightarrow> False | Some ra \<Rightarrow> ra_path ra \<noteq> None)
       else True)
      \<and> list_all painted cs)"

section \<open>Concrete documents, strokes and library answers\<close>

text \<open>
  The scenario of the specification: a horizontal stroke from \<open>(0,0)\<close> to \<open>(20,0)\<close> and
  an eraser segment from \<open>(5,-5)\<close> to \<open>(5,5)\<close> that crosses it.  The library functions are
  given by their answers on these inputs.
\<close>

definition strokeD :: string where
  "strokeD = ''M 0.0 0.0 C 3.0 0.0, 17.0 0.0, 20.0 0.0 ''"

definition eraserLine :: shape where
  "eraserLine = ShapeLine (5, - 5) (5, 5)"

definition crossesStroke :: "shape \<Rightarrow> shape \<Rightarrow> bool" where
  "crossesStroke a b = (a = ShapePath strokeD \<and> b = eraserLine)"

text \<open>A stroke as \<^verbatim>\<open>transform\<close> leaves it after loading: no \<^verbatim>\<open>renderAttributes\<close>.\<close>

definition strokeNode :: "node list \<Rightarrow> node" where
  "strokeNode kids =
     Elem ''path'' [(''d'', strokeD), (''fill'', ''none'')]
       (Some (emptyNoteSvgAttrs\<lparr>stroke := Some ''#000'', strokeWidth := Some 2\<rparr>))
       None kids"

definition svgRoot :: "node list \<Rightarrow> node" where
  "svgRoot kids =
     Elem ''svg'' [(''xmlns'', ''http://www.w3.org/2000/svg'')]
       (Some (emptyNoteSvgAttrs\<lparr>width := Some 360, height := Some 360\<rparr>))
       None kids"

text \<open>\<^verbatim>\<open><svg><path/></svg>\<close>, \<^verbatim>\<open><svg><g><path/></g></svg>\<close> and
  \<^verbatim>\<open><svg><path><title>note</title></path></svg>\<close>.\<close>

definition flatDocument :: node where
  "flatDocument = svgRoot [strokeNode []]"

definition nestedDocument :: node where
  "nestedDocument = svgRoot [Elem ''g'' [] None None [strokeNode []]]"

definition titledDocument :: node where
  "titledDocument = svgRoot [strokeNode [Elem ''title'' [] None None [Text ''note'']]]"

definition strokePoints3 :: "point list" where
  "strokePoints3 = [(0, 0), (10, 0), (20, 0)]"

definition tapPoints :: "point list" where
  "tapPoints = [(7, 7), (7, 7)]"

text \<open>Answers of the libraries: the fitter returns one curve for the three-point stroke,
  no curve for a tap (two equal points) and throws otherwise; the numbers of the examples
  are integers, printed from a table, with as many zero decimals as \<^verbatim>\<open>toFixed\<close> is asked
  for; \<^verbatim>\<open>ShapeInfo.path\<close> throws on \<^verbatim>\<open>undefined\<close>.\<close>

definition tableDigits :: "real \<Rightarrow> string" where
  "tableDigits v =
     (if v = 0 then ''0'' else if v = 1 then ''1'' else if v = 2 then ''2''
      else if v = 3 then ''3'' else if v = 7 then ''7'' else if v = 10 then ''10''
      else if v = 17 then ''17'' else if v = 20 then ''20'' else ''9'')"

definition tableToFixed :: "real \<Rightarrow> nat \<Rightarrow> string" where
  "tableToFixed v decimals =
     tableDigits v @ (if decimals = 0 then [] else ''.'' @ replicate decimals CHR ''0'')"

definition tableToString :: "real \<Rightarrow> string" where
  "tableToString v = tableDigits v"

definition tableFitCurve :: "point list \<Rightarrow> real \<Rightarrow> error + curve list" where
  "tableFitCurve ps maxError =
     (if ps = strokePoints3 then Inr [((0, 0), (3, 0), (17, 0), (20, 0))]
      else if ps = tapPoints then Inr []
      else Inl (TypeError ''fitCurve is not a function''))"

definition tablePath :: "string option \<Rightarrow> error + shape" where
  "tablePath d =
     (case d of
        None \<Rightarrow> Inl (TypeError ''Cannot read properties of undefined'')
      | Some pathData \<Rightarrow> Inr (ShapePath pathData))"

definition tableLibs :: libs where
  "tableLibs =
     \<lparr>fitCurve = tableFitCurve, toFixed = tableToFixed, numToString = tableToString,
      shapeInfoPath = tablePath, intersect = crossesStroke, txmlParse = (\<lambda>s. []),
      parseFloat = (\<lambda>v. None)\<rparr>"

definition penTool :: tool where
  "penTool = Pen ''#000'' 2 1.5"

definition eraserTool :: tool where
  "eraserTool = Eraser 10"

text \<open>A renderer with no live stroke; one in which pointer 1 has drawn from \<open>(0,0)\<close> to
  \<open>(10,0)\<close> with the pen; and one in which it has put the eraser down at the start of
  the crossing segment.\<close>

definition idleRenderer :: StrokeRenderer where
  "idleRenderer = \<lparr>liveStrokes = Map.empty, svg = flatDocument, tool = penTool\<rparr>"

definition penRenderer :: StrokeRenderer where
  "penRenderer = snd (moveStroke tableLibs 1 (10, 0) (beginStroke 1 (0, 0) idleRenderer))"

definition eraserRenderer :: StrokeRenderer where
  "eraserRenderer = beginStroke 1 (5, - 5) (idleRenderer\<lparr>tool := eraserTool\<rparr>)"

text \<open>\<^verbatim>\<open><svg><path fill="none"/></svg>\<close>: a path without \<^verbatim>\<open>d\<close>, and the eraser put down
  on it.\<close>

definition brokenDocument :: node where
  "brokenDocument = svgRoot [Elem ''path'' [(''fill'', ''none'')] None None []]"

definition brokenEraserRenderer :: StrokeRenderer where
  "brokenEraserRenderer =
     beginStroke 1 (5, - 5) \<lparr>liveStrokes = Map.empty, svg = brokenDocument, tool = eraserTool\<rparr>"

text \<open>The document once the back canvas has been drawn, as \<^verbatim>\<open>setupCanvas\<close> does at
  start-up.\<close>

definition drawnRenderer :: StrokeRenderer where
  "drawnRenderer = drawBack idleRenderer"

text \<open>\<^verbatim>\<open><svg><path/><g><path/></g></svg>\<close>\<close>

definition twoStrokeDocument :: node where
  "twoStrokeDocument = svgRoot [strokeNode [], Elem ''g'' [] None None [strokeNode []]]"

section \<open>Documents whose paths can be tested\<close>

text \<open>Every \<^verbatim>\<open>path\<close> element of the tree has a cached shape or path data from which
  \<^verbatim>\<open>ShapeInfo.path\<close> builds one.\<close>

fun shapesBuild :: "(string option \<Rightarrow> error + shape) \<Rightarrow> node \<Rightarrow> bool" where
  "shapesBuild P (Text s) = True"
| "shapesBuild P (Elem t a n r cs) =
     ((if t = ''path''
       then (case snd (cacheShape P a r) of Inl e \<Rightarrow> False | Inr s \<Rightarrow> True)
       else True)
      \<and> list_all (shapesBuild P) cs)"

section \<open>Properties\<close>

lemmas data_defs = strokeD_def eraserLine_def crossesStroke_def strokeNode_def svgRoot_def
  flatDocument_def nestedDocument_def titledDocument_def twoStrokeDocument_def
  brokenDocument_def emptyNoteSvgAttrs_def emptyRenderAttrs_def cacheShape_def cachePath_def
  childTest_def childRender_def tablePath_def Let_def


lemmas renderer_defs = idleRenderer_def penRenderer_def eraserRenderer_def
  brokenEraserRenderer_def drawnRenderer_def penTool_def eraserTool_def beginStroke_def
  moveStroke_def endStroke_def drawBack_def processEraserStroke_def finalizePenStroke_def
  createPathFromStroke_def

lemmas parse_defs = trim_def isWhiteSpace_def parseInt_def startsWith_def isRadixDigit_def
  digitValue_def digitsValue_def Let_def

subsection \<open>filterIntersecting: the list it returns\<close>

text \<open>
  A Path that is a direct child of the node is reported when it is excised (the entry
  carries the shape the test has cached on it).
\<close>

lemma filterIntersecting_reports_direct_child:
  "filterIntersecting tablePath crossesStroke eraserLine flatDocument [] False True
     = (None, svgRoot [],
        [Elem ''path'' [(''d'', strokeD), (''fill'', ''none'')]
           (Some (emptyNoteSvgAttrs\<lparr>stroke := Some ''#000'', strokeWidth := Some 2\<rparr>))
           (Some (emptyRenderAttrs\<lparr>ra_shape := Some (ShapePath strokeD)\<rparr>)) []])"
  by (simp add: data_defs)

text \<open>
  Claim C1 says that \<^verbatim>\<open>filterIntersecting\<close> with \<^verbatim>\<open>keepIntersecting = false\<close> returns
  all removed nodes in pre-order, including the Path nodes excised from nested surviving
  subtrees when \<^verbatim>\<open>recurse = true\<close>.  The code does not: the recursive call is handed a
  fresh array, so what it removes below a child never reaches the caller's list.  On
  \<^verbatim>\<open><svg><g><path/></g></svg>\<close> with a segment that crosses the path, nothing is thrown,
  the path is excised from the group and the list returned is empty.
\<close>

theorem filterIntersecting_drops_nested_removals:
  "filterIntersecting tablePath crossesStroke eraserLine nestedDocument [] False True
     = (None, svgRoot [Elem ''g'' [] None None []], [])"
  by (simp add: data_defs)

text \<open>A \<^verbatim>\<open>path\<close> without \<^verbatim>\<open>d\<close>: \<^verbatim>\<open>ShapeInfo.path\<close> throws, after
  \<^verbatim>\<open>renderAttributes\<close> has been created, and nothing is removed.\<close>

lemma filterIntersecting_throws_without_d:
  "filterIntersecting tablePath crossesStroke eraserLine brokenDocument [] False True
     = (Some (TypeError ''Cannot read properties of undefined''),
        svgRoot [Elem ''path'' [(''fill'', ''none'')] None (Some emptyRenderAttrs) []], [])"
  by (simp add: data_defs)

subsection \<open>Events for an identifier without a live stroke\<close>

lemma moveStroke_idle: "liveStrokes R id' = None \<Longrightarrow> moveStroke L id' p R = (None, R)"
  by (simp add: moveStroke_def)

lemma endStroke_idle:
  "liveStrokes R id' = None \<Longrightarrow>
     endStroke L id' p R
       = (Some (TypeError ''Cannot destructure property stroke of undefined''), R)"
  by (simp add: endStroke_def moveStroke_def)

text \<open>
  Claim C2 says that for an identifier with no entry in the live-session map both
  \<^verbatim>\<open>extend\<close> and \<^verbatim>\<open>end\<close> are no-ops that raise no error.  \<^verbatim>\<open>moveStroke\<close> is one;
  \<^verbatim>\<open>endStroke\<close> leaves the map and the tree unchanged but throws a TypeError, because
  it destructures \<^verbatim>\<open>this.liveStrokes[id]\<close> without the \<^verbatim>\<open>|| {}\<close> that
  \<^verbatim>\<open>moveStroke\<close> has.  Both are run here on a renderer with no live stroke.
\<close>

theorem endStroke_without_session_throws:
  "moveStroke tableLibs 1 (5, 5) idleRenderer = (None, idleRenderer)
   \<and> endStroke tableLibs 1 (5, 5) idleRenderer
       = (Some (TypeError ''Cannot destructure property stroke of undefined''), idleRenderer)"
  by (simp add: endStroke_def moveStroke_def idleRenderer_def)

subsection \<open>The path string\<close>

lemma appendCurves_eq:
  "appendCurves L d curves
     = d @ renderCommands (map (curveCommand (\<lambda>v. toFixed L v 1)) curves)"
proof (induction curves arbitrary: d)
  case Nil
  show ?case by (simp add: renderCommands_def)
next
  case (Cons c curves)
  obtain p0 c1 c2 p3 where c: "c = (p0, c1, c2, p3)" by (cases c) auto
  show ?case by (simp add: c Cons.IH renderCommands_def roundNumber_def)
qed

lemma appendLines_eq:
  "appendLines f ps i d
     = d @ renderCommands (map (\<lambda>q. LineTo (f (fst q)) (f (snd q))) (drop i ps))"
proof (induction f ps i d rule: appendLines.induct)
  case (1 f ps i d)
  show ?case
  proof (cases "i < length ps")
    case True
    then have "drop i ps = ps ! i # drop (Suc i) ps" by (simp add: Cons_nth_drop_Suc)
    with True "1.IH" show ?thesis
      by (subst appendLines.simps) (simp add: renderCommands_def)
  next
    case False
    then show ?thesis by (subst appendLines.simps) (simp add: renderCommands_def)
  qed
qed

text \<open>
  What \<^verbatim>\<open>generatePathData\<close> emits for a stroke of at least two points.  When the fitter
  returns curves: one move-to at the start point of the first curve, then one cubic-curve
  command per curve, every number printed by \<^verbatim>\<open>toFixed\<close> with one decimal.  When it
  returns no curve: a move-to at the first point and a line-to for every further point,
  printed the same way.  When it throws: the same commands with the numbers as the
  template literal prints them.
\<close>

lemma generatePathData_commands:
  assumes "2 \<le> length strokePoints"
  shows "(\<forall>curves. fitCurve L strokePoints 2 = Inr curves \<and> curves \<noteq> [] \<longrightarrow>
            generatePathData L strokePoints
              = renderCommands (encode (\<lambda>v. toFixed L v 1) curves)
          \<and> length (encode (\<lambda>v. toFixed L v 1) curves) = 1 + length curves)
       \<and> (fitCurve L strokePoints 2 = Inr [] \<longrightarrow>
            generatePathData L strokePoints
              = renderCommands (encodePolyline (\<lambda>v. toFixed L v 1) strokePoints))
       \<and> (\<forall>err. fitCurve L strokePoints 2 = Inl err \<longrightarrow>
            generatePathData L strokePoints
              = renderCommands (encodePolyline (numToString L) strokePoints))"
proof -
  from assms obtain p ps where sp: "strokePoints = p # ps" by (cases strokePoints) auto
  have cubic: "generatePathData L strokePoints
                 = renderCommands (encode (\<lambda>v. toFixed L v 1) curves)
               \<and> length (encode (\<lambda>v. toFixed L v 1) curves) = 1 + length curves"
    if "fitCurve L strokePoints 2 = Inr curves" "curves \<noteq> []" for curves
  proof -
    from that(2) obtain c cs where cs: "curves = c # cs" by (cases curves) auto
    obtain p0 c1 c2 p3 where c: "c = (p0, c1, c2, p3)" by (cases c) auto
    show ?thesis using assms that(1)
      by (simp add: generatePathData_def cs c appendCurves_eq renderCommands_def
            roundNumber_def)
  qed
  have poly: "generatePathData L strokePoints
                = renderCommands (encodePolyline (\<lambda>v. toFixed L v 1) strokePoints)"
    if "fitCurve L strokePoints 2 = Inr []"
    using assms that
    by (auto simp add: generatePathData_def sp appendLines_eq renderCommands_def
          roundNumber_def)
  have raw: "generatePathData L strokePoints
                = renderCommands (encodePolyline (numToString L) strokePoints)"
    if "fitCurve L strokePoints 2 = Inl err" for err
    using assms that
    by (auto simp add: generatePathData_def sp appendLines_eq renderCommands_def)
  from cubic poly raw show ?thesis by blast
qed


text \<open>
  Claim C9.  For a stroke of fewer than two points \<^verbatim>\<open>generatePathData\<close> returns the empty
  string: no move-to is emitted and nothing is thrown (the result is a string whatever the
  libraries do).
\<close>

theorem generatePathData_short_stroke:
  "length strokePoints < 2 \<Longrightarrow> generatePathData L strokePoints = []"
  by (simp add: generatePathData_def)

theorem generatePathData_short_stroke_witness:
  "length [(4 :: real, 2 :: real)] < 2 \<and> generatePathData tableLibs [(4, 2)] = []"
  using generatePathData_short_stroke [of "[(4, 2)]" tableLibs] by simp

subsection \<open>Loading a document\<close>

lemma startsWith_prefix: "startsWith s p \<longleftrightarrow> prefix p s"
  by (metis startsWith_def append_take_drop_id prefix_def append_eq_conv_conj)

lemma endsWith_suffix: "endsWith s p \<longleftrightarrow> suffix p s"
  unfolding endsWith_def suffix_def
  by (metis append_eq_conv_conj append_take_drop_id diff_add_inverse2 length_append le_add2
        length_drop)

text \<open>
  Claim C4.  A string that, once trimmed, does not both begin with \<^verbatim>\<open><svg\<close> and end
  with \<^verbatim>\<open></svg>\<close> is rejected by \<^verbatim>\<open>deserializeDocument\<close> with the error
  \<^verbatim>\<open>Invalid SVG string\<close>, whatever the parser would do, and before any call to the parser
  or to \<^verbatim>\<open>transform\<close>: the list of calls is empty.
\<close>

theorem deserializeDocument_rejects_non_svg:
  assumes "\<not> (prefix ''<svg'' (trim svgString) \<and> suffix ''</svg>'' (trim svgString))"
  shows "deserializeDocument L svgString = (Inl (Error ''Invalid SVG string''), [])"
  using assms
  by (simp add: deserializeDocument_def isValidSvg_def startsWith_prefix endsWith_suffix)

theorem deserializeDocument_rejects_non_svg_witness:
  "\<not> (prefix ''<svg'' (trim ''not svg'') \<and> suffix ''</svg>'' (trim ''not svg''))
   \<and> deserializeDocument tableLibs ''not svg'' = (Inl (Error ''Invalid SVG string''), [])"
proof -
  have h: "\<not> (prefix ''<svg'' (trim ''not svg'') \<and> suffix ''</svg>'' (trim ''not svg''))"
    by (simp add: trim_def isWhiteSpace_def)
  from h deserializeDocument_rejects_non_svg [OF h, of tableLibs] show ?thesis by blast
qed

subsection \<open>What a redraw and a filter leave in the tree\<close>

text \<open>
  A redraw changes nothing of the scene tree and is the identity on a tree whose Path
  nodes all carry their \<^verbatim>\<open>Path2D\<close>; it produces such a tree, and
  \<^verbatim>\<open>filterIntersecting\<close> keeps it so.  When every path of the tree has a shape or path
  data that \<^verbatim>\<open>ShapeInfo.path\<close> accepts, \<^verbatim>\<open>filterIntersecting\<close> and \<^verbatim>\<open>moveStroke\<close>
  throw nothing.
\<close>

lemma scene_drawNode [simp]: "scene (drawNode node recurse) = scene node"
proof (induction node arbitrary: recurse)
  case (Text s)
  show ?case by simp
next
  case (Elem t a n r cs)
  have "map (\<lambda>c. scene (drawNode c True)) cs = map scene cs"
    using Elem.IH by (induction cs) auto
  then show ?case
    by (auto simp: cachePath_def emptyRenderAttrs_def Let_def comp_def split: option.splits)
qed

lemma countPaths_drawNode [simp]: "countPaths (drawNode node recurse) = countPaths node"
proof (induction node arbitrary: recurse)
  case (Text s)
  show ?case by simp
next
  case (Elem t a n r cs)
  have "map (\<lambda>c. countPaths (drawNode c True)) cs = map countPaths cs"
    using Elem.IH by (induction cs) auto
  then have "sum_list (map (\<lambda>c. countPaths (drawNode c True)) cs)
               = sum_list (map countPaths cs)"
    by (rule arg_cong)
  then show ?case by (simp add: comp_def)
qed

lemma forgetSize_drawNode:
  "forgetSize (drawNode node recurse) = drawNode (forgetSize node) recurse"
  by (cases node) simp_all

lemma forgetSize_setSize:
  "hasNoteSvgAttributes node \<Longrightarrow> forgetSize (setSize sz node) = forgetSize node"
  by (cases node) (auto simp: option.map_comp comp_def)

lemma rootSize_setSize:
  "hasNoteSvgAttributes node \<Longrightarrow> rootSize (setSize sz node) = Some (Some (fst sz), Some (snd sz))"
  by (cases node) auto

lemma rootSize_drawNode [simp]: "rootSize (drawNode node recurse) = rootSize node"
  by (cases node) simp_all

lemma isPath_createPathFromStroke [simp]: "isPath (createPathFromStroke L ps t)"
  by (simp add: createPathFromStroke_def Let_def)

lemma cachePath_painted:
  "r = Some ra \<Longrightarrow> ra_path ra \<noteq> None \<Longrightarrow> cachePath a r = ra"
  by (auto simp: cachePath_def Let_def)

lemma drawNode_painted: "painted node \<Longrightarrow> drawNode node recurse = node"
proof (induction node arbitrary: recurse)
  case (Text s)
  show ?case by simp
next
  case (Elem t a n r cs)
  from Elem.prems have kids: "list_all painted cs" by simp
  have "map (\<lambda>c. drawNode c True) cs = cs"
    using Elem.IH kids by (induction cs) auto
  moreover have "(if t = ''path'' then Some (cachePath a r) else r) = r"
    using Elem.prems by (auto simp: cachePath_painted split: option.splits)
  ultimately show ?case by simp
qed




lemma shapesBuild_childRender:
  "shapesBuild P (Elem t a n r kids) \<Longrightarrow> shapesBuild P (Elem t a n (childRender P t a r) kids)"
  by (auto simp: childRender_def cacheShape_def Let_def split: option.splits sum.splits)

lemma shapesBuild_childTest:
  "shapesBuild P (Elem t a n r kids) \<Longrightarrow> \<exists>b. childTest P I sh t a r = Inr b"
  by (auto simp: childTest_def split: sum.splits)

lemma filter_returns:
  "shapesBuild P node \<Longrightarrow> fst (filterIntersecting P I sh node removed keep recurse) = None"
  "list_all (shapesBuild P) cs \<Longrightarrow> fst (filterChildren P I sh cs removed keep recurse) = None"
proof (induction P I sh node removed keep recurse and P I sh cs removed keep recurse
       rule: filterIntersecting_filterChildren.induct)
  case (1 P I sh s removed keepIntersecting recurse)
  then show ?case by simp
next
  case (2 P I sh t a n r cs removed keepIntersecting recurse)
  then show ?case by (auto split: prod.splits)
next
  case (3 P I sh removed keepIntersecting recurse)
  then show ?case by simp
next
  case (4 P I sh s cs removed keepIntersecting recurse)
  then show ?case by (auto split: prod.splits)
next
  case (5 P I sh t a n r kids cs removed keep recurse)
  from "5.prems" have p: "shapesBuild P (Elem t a n r kids)"
    and ps: "list_all (shapesBuild P) cs" by simp_all
  note p1 = shapesBuild_childRender [OF p]
  from shapesBuild_childTest [OF p] obtain hit where Inr: "childTest P I sh t a r = Inr hit"
    by blast
  obtain e1 child nested where subeq: "(if recurse
         then filterIntersecting P I sh (Elem t a n (childRender P t a r) kids) [] keep recurse
         else (None, Elem t a n (childRender P t a r) kids, [])) = (e1, child, nested)"
    by (cases "(if recurse
         then filterIntersecting P I sh (Elem t a n (childRender P t a r) kids) [] keep recurse
         else (None, Elem t a n (childRender P t a r) kids, []))") auto
  have e1: "e1 = None"
  proof (cases recurse)
    case True
    from "5.IH"(1) [OF Inr True p1] True subeq show ?thesis
      by (simp del: filterIntersecting.simps)
  next
    case False
    then show ?thesis using subeq by simp
  qed
  have cn: "(child, nested) = (child, nested)" by simp
  note rest = "5.IH"(2) [OF Inr subeq [symmetric] e1 cn ps]
  obtain err cs' removed' where
    res: "filterChildren P I sh cs (if hit then removed @ [child] else removed) keep recurse
            = (err, cs', removed')"
    by (cases "filterChildren P I sh cs (if hit then removed @ [child] else removed)
                 keep recurse") auto
  from rest res have "err = None" by simp
  moreover have "filterChildren P I sh (Elem t a n r kids # cs) removed keep recurse
          = (err, if err \<noteq> None \<or> keep \<or> \<not> hit then child # cs' else cs', removed')"
    using Inr e1 by (simp add: subeq res del: filterIntersecting.simps)
  ultimately show ?case by (simp del: filterChildren.simps)
qed

lemma moveStroke_returns:
  "shapesBuild (shapeInfoPath L) (svg R) \<Longrightarrow> fst (moveStroke L id' p R) = None"
proof -
  assume b: "shapesBuild (shapeInfoPath L) (svg R)"
  have "fst (processEraserStroke (shapeInfoPath L) (intersect L) a p (svg R)) = None" for a
    unfolding processEraserStroke_def by (rule filter_returns(1) [OF b])
  then have "processEraserStroke (shapeInfoPath L) (intersect L) a p (svg R) \<noteq> (Some e, d, rm)"
    for a e d rm
    by (metis fst_conv option.distinct(1))
  then show ?thesis
    by (auto simp: moveStroke_def split: option.splits prod.splits)
qed
lemma painted_createPathFromStroke [simp]: "painted (createPathFromStroke L ps t)"
  by (simp add: createPathFromStroke_def Let_def emptyRenderAttrs_def)


subsection \<open>Ending a stroke\<close>

text \<open>An exception of the final \<^verbatim>\<open>moveStroke\<close> is the exception of \<^verbatim>\<open>endStroke\<close>, which
  then does nothing more; it happens when the eraser meets a \<^verbatim>\<open>path\<close> without
  \<^verbatim>\<open>d\<close>.\<close>

lemma endStroke_rethrows:
  "fst (moveStroke L id' p R) = Some e \<Longrightarrow> endStroke L id' p R = moveStroke L id' p R"
  by (cases "moveStroke L id' p R") (simp add: endStroke_def)

lemma endStroke_broken:
  "endStroke tableLibs 1 (5, 5) brokenEraserRenderer
     = (Some (TypeError ''Cannot read properties of undefined''),
        brokenEraserRenderer
          \<lparr>svg := svgRoot [Elem ''path'' [(''fill'', ''none'')] None (Some emptyRenderAttrs) []]\<rparr>)"
  by (simp add: renderer_defs data_defs tableLibs_def)







subsection \<open>clearPaths\<close>

lemma clearPaths_cleared:
  "cleared recurse (fst (clearPaths node removed recurse))"
  "clearedChildren recurse (fst (clearChildren cs removed recurse))"
  by (induction node removed recurse and cs removed recurse rule: clearPaths_clearChildren.induct)
     (auto split: prod.splits)

lemma cleared_clearPaths:
  "cleared recurse node \<Longrightarrow> clearPaths node removed recurse = (node, removed)"
  "clearedChildren recurse cs \<Longrightarrow> clearChildren cs removed recurse = (cs, removed)"
  by (induction node removed recurse and cs removed recurse rule: clearPaths_clearChildren.induct)
     (auto split: prod.splits)

lemma cleared_no_paths:
  "cleared True node \<Longrightarrow> countPaths node = (if isPath node then 1 else 0)"
  "clearedChildren True cs \<Longrightarrow> sum_list (map countPaths cs) = 0"
  by (induction "True" node and "True" cs rule: cleared_clearedChildren.induct)
     (auto split: if_splits)

lemma clearPaths_conserves:
  "\<exists>new. snd (clearPaths node removed recurse) = removed @ new \<and> list_all isPath new
         \<and> countPaths (fst (clearPaths node removed recurse)) + sum_list (map countPaths new)
             = countPaths node"
  "\<exists>new. snd (clearChildren cs removed recurse) = removed @ new \<and> list_all isPath new
         \<and> sum_list (map countPaths (fst (clearChildren cs removed recurse)))
               + sum_list (map countPaths new)
             = sum_list (map countPaths cs)"
proof (induction node removed recurse and cs removed recurse
       rule: clearPaths_clearChildren.induct)
  case (1 s removed recurse)
  show ?case by simp
next
  case (2 t a n r cs removed recurse)
  then obtain new where
    "snd (clearChildren cs removed recurse) = removed @ new" "list_all isPath new"
    "sum_list (map countPaths (fst (clearChildren cs removed recurse)))
       + sum_list (map countPaths new) = sum_list (map countPaths cs)"
    by blast
  then show ?case by (auto split: prod.splits)
next
  case (3 removed recurse)
  show ?case by simp
next
  case (4 s cs removed recurse)
  then obtain new where
    "snd (clearChildren cs removed recurse) = removed @ new" "list_all isPath new"
    "sum_list (map countPaths (fst (clearChildren cs removed recurse)))
       + sum_list (map countPaths new) = sum_list (map countPaths cs)"
    by blast
  then show ?case by (auto split: prod.splits)
next
  case (5 t a n r kids cs removed recurse)
  show ?case
  proof (cases "t = ''path''")
    case True
    from "5.IH"(1) [OF True] obtain new where
      n: "snd (clearChildren cs (removed @ [Elem t a n r kids]) recurse)
            = (removed @ [Elem t a n r kids]) @ new" "list_all isPath new"
      "sum_list (map countPaths (fst (clearChildren cs (removed @ [Elem t a n r kids]) recurse)))
         + sum_list (map countPaths new) = sum_list (map countPaths cs)"
      by blast
    have "snd (clearChildren (Elem t a n r kids # cs) removed recurse)
            = removed @ (Elem t a n r kids # new)"
      using True n(1) by simp
    moreover have "list_all isPath (Elem t a n r kids # new)" using True n(2) by simp
    moreover have "sum_list (map countPaths (fst (clearChildren (Elem t a n r kids # cs) removed recurse)))
         + sum_list (map countPaths (Elem t a n r kids # new))
         = sum_list (map countPaths (Elem t a n r kids # cs))"
      using True n(3) by simp
    ultimately show ?thesis by blast
  next
    case False
    show ?thesis
    proof (cases recurse)
      case True
      obtain child removed1 where c: "clearPaths (Elem t a n r kids) removed recurse = (child, removed1)"
        by (cases "clearPaths (Elem t a n r kids) removed recurse")
      from "5.IH"(2) [OF False True] c obtain new1 where
        a: "removed1 = removed @ new1" "list_all isPath new1"
           "countPaths child + sum_list (map countPaths new1) = countPaths (Elem t a n r kids)"
        by auto
      from "5.IH"(3) [OF False True c [symmetric]] obtain new2 where
        b: "snd (clearChildren cs removed1 recurse) = removed1 @ new2" "list_all isPath new2"
           "sum_list (map countPaths (fst (clearChildren cs removed1 recurse)))
              + sum_list (map countPaths new2) = sum_list (map countPaths cs)"
        by blast
      have res: "clearChildren (Elem t a n r kids # cs) removed recurse
                   = (child # fst (clearChildren cs removed1 recurse),
                      snd (clearChildren cs removed1 recurse))"
        using False True c by (simp del: clearPaths.simps split: prod.splits)
      have "snd (clearChildren (Elem t a n r kids # cs) removed recurse) = removed @ (new1 @ new2)"
        using res a(1) b(1) by simp
      moreover have "list_all isPath (new1 @ new2)" using a(2) b(2) by simp
      moreover have "sum_list (map countPaths (fst (clearChildren (Elem t a n r kids # cs) removed recurse)))
           + sum_list (map countPaths (new1 @ new2))
           = sum_list (map countPaths (Elem t a n r kids # cs))"
        using res a(3) b(3) by (simp del: countPaths.simps)
      ultimately show ?thesis by blast
    next
      case nr: False
      from "5.IH"(4) [OF False nr] obtain new where
        n: "snd (clearChildren cs removed recurse) = removed @ new" "list_all isPath new"
        "sum_list (map countPaths (fst (clearChildren cs removed recurse)))
           + sum_list (map countPaths new) = sum_list (map countPaths cs)"
        by blast
      then show ?thesis using False nr by (auto split: prod.splits)
    qed
  qed
qed

text \<open>
  Claim C6.  The first call of \<^verbatim>\<open>clearPaths\<close> leaves no Path node where a second call
  with the same \<^verbatim>\<open>recurse\<close> flag looks; when recursing, no Path node is left below the
  node at all.  What it adds to \<^verbatim>\<open>removed\<close> are Path nodes, and every Path node of the
  tree is still in the tree or is, or lies in, one of them.  The second call in succession
  therefore returns an empty list of removed nodes, and leaves the tree as it is.
\<close>

theorem clearPaths_twice_empty:
  "cleared recurse (fst (clearPaths node removed recurse))
   \<and> (recurse \<longrightarrow>
        countPaths (fst (clearPaths node removed recurse)) = (if isPath node then 1 else 0))
   \<and> (\<exists>new. snd (clearPaths node removed recurse) = removed @ new \<and> list_all isPath new
            \<and> countPaths (fst (clearPaths node removed recurse))
                 + sum_list (map countPaths new) = countPaths node)
   \<and> clearPaths (fst (clearPaths node removed recurse)) [] recurse
       = (fst (clearPaths node removed recurse), [])"
proof (intro conjI impI)
  show c: "cleared recurse (fst (clearPaths node removed recurse))"
    by (rule clearPaths_cleared(1))
  show "countPaths (fst (clearPaths node removed recurse)) = (if isPath node then 1 else 0)"
    if recurse
  proof -
    from that c have "cleared True (fst (clearPaths node removed recurse))" by simp
    from cleared_no_paths(1) [OF this]
    have "countPaths (fst (clearPaths node removed recurse))
            = (if isPath (fst (clearPaths node removed recurse)) then 1 else 0)" .
    moreover have "isPath (fst (clearPaths node removed recurse)) = isPath node"
      by (cases node) (auto split: prod.splits)
    ultimately show ?thesis by simp
  qed
  show "\<exists>new. snd (clearPaths node removed recurse) = removed @ new \<and> list_all isPath new
            \<and> countPaths (fst (clearPaths node removed recurse))
                 + sum_list (map countPaths new) = countPaths node"
    by (rule clearPaths_conserves(1))
  show "clearPaths (fst (clearPaths node removed recurse)) [] recurse
       = (fst (clearPaths node removed recurse), [])"
    by (rule cleared_clearPaths(1) [OF c])
qed

lemma clearPaths_twoStroke:
  "clearPaths twoStrokeDocument [] True
     = (svgRoot [Elem ''g'' [] None None []], [strokeNode [], strokeNode []])"
  by (simp add: twoStrokeDocument_def svgRoot_def strokeNode_def)

theorem clearPaths_twice_empty_witness:
  "countPaths twoStrokeDocument = 2
   \<and> snd (clearPaths twoStrokeDocument [] True) = [strokeNode [], strokeNode []]
   \<and> countPaths (fst (clearPaths twoStrokeDocument [] True)) = 0
   \<and> clearPaths (fst (clearPaths twoStrokeDocument [] True)) [] True
       = (svgRoot [Elem ''g'' [] None None []], [])"
proof -
  have n: "\<not> isPath twoStrokeDocument" "countPaths twoStrokeDocument = 2"
    by (simp_all add: twoStrokeDocument_def svgRoot_def strokeNode_def)
  from clearPaths_twice_empty [of True twoStrokeDocument "[]"] n clearPaths_twoStroke
  show ?thesis by simp
qed

subsection \<open>filterIntersecting: what it removes\<close>

lemma cacheShape_again [simp]:
  "snd (cacheShape P a (Some (fst (cacheShape P a r)))) = snd (cacheShape P a r)"
  by (simp add: cacheShape_def Let_def split: option.splits sum.splits)

lemma childTest_again [simp]:
  "childTest P I sh t a (childRender P t a r) = childTest P I sh t a r"
  by (simp add: childTest_def childRender_def)

lemma childTest_True_path: "childTest P I sh t a r = Inr True \<Longrightarrow> t = ''path''"
  by (simp add: childTest_def split: if_splits)

lemma filter_counts:
  "\<not> keep \<Longrightarrow> pathsAreLeaves node \<Longrightarrow>
     countNonPath (fst (snd (filterIntersecting P I sh node removed keep recurse)))
       = countNonPath node
   \<and> countMissed P I sh (fst (snd (filterIntersecting P I sh node removed keep recurse)))
       = countMissed P I sh node
   \<and> (\<exists>new. snd (snd (filterIntersecting P I sh node removed keep recurse)) = removed @ new
            \<and> list_all (testsPositive P I sh) new)"
  "\<not> keep \<Longrightarrow> list_all pathsAreLeaves cs \<Longrightarrow>
     sum_list (map countNonPath (fst (snd (filterChildren P I sh cs removed keep recurse))))
       = sum_list (map countNonPath cs)
   \<and> sum_list (map (countMissed P I sh)
                 (fst (snd (filterChildren P I sh cs removed keep recurse))))
       = sum_list (map (countMissed P I sh) cs)
   \<and> (\<exists>new. snd (snd (filterChildren P I sh cs removed keep recurse)) = removed @ new
            \<and> list_all (testsPositive P I sh) new)"
proof (induction P I sh node removed keep recurse and P I sh cs removed keep recurse
       rule: filterIntersecting_filterChildren.induct)
  case (1 P I sh s removed keepIntersecting recurse)
  then show ?case by simp
next
  case (2 P I sh t a n r cs removed keepIntersecting recurse)
  then show ?case by (auto split: prod.splits)
next
  case (3 P I sh removed keepIntersecting recurse)
  then show ?case by simp
next
  case (4 P I sh s cs removed keepIntersecting recurse)
  then show ?case by (auto split: prod.splits)
next
  case (5 P I sh t a n r kids cs removed keep recurse)
  define r1 where "r1 = childRender P t a r"
  define orig where "orig = Elem t a n r1 kids"
  have nokeep: "\<not> keep" by (rule "5.prems"(1))
  have leaves: "pathsAreLeaves (Elem t a n r kids)" "list_all pathsAreLeaves cs"
    using "5.prems"(2) by simp_all
  have leaves1: "pathsAreLeaves orig" using leaves(1) by (simp add: orig_def)
  have same: "countNonPath orig = countNonPath (Elem t a n r kids)"
             "countMissed P I sh orig = countMissed P I sh (Elem t a n r kids)"
    by (simp_all add: orig_def r1_def)
  show ?case
  proof (cases "childTest P I sh t a r")
    case (Inl e)
    then have "filterChildren P I sh (Elem t a n r kids # cs) removed keep recurse
                 = (Some e, orig # cs, removed)"
      by (simp add: orig_def r1_def)
    then show ?thesis using same by simp
  next
    case (Inr hit)
    define sub where
      "sub = (if recurse then filterIntersecting P I sh orig [] keep recurse
              else (None, orig, []))"
    obtain e1 child nested where sub: "sub = (e1, child, nested)" by (cases sub) auto
    define removed1 where "removed1 = (if hit then removed @ [child] else removed)"
    have child_counts:
      "countNonPath child = countNonPath (Elem t a n r kids)
       \<and> countMissed P I sh child = countMissed P I sh (Elem t a n r kids)"
    proof (cases recurse)
      case True
      from "5.IH"(1) [OF Inr True nokeep leaves1 [unfolded orig_def r1_def]] True same sub
      show ?thesis by (simp add: sub_def orig_def r1_def)
    next
      case False
      then show ?thesis using same sub by (simp add: sub_def)
    qed
    have child_hit:
      "testsPositive P I sh child \<and> countNonPath child = 0 \<and> countMissed P I sh child = 0
       \<and> e1 = None"
      if "hit"
    proof -
      from that Inr have ct: "childTest P I sh t a r = Inr True" by simp
      then have p: "t = ''path''" by (rule childTest_True_path)
      from p leaves(1) have k: "kids = []" by simp
      have c: "sub = (None, Elem t a n r1 [], [])"
        by (simp add: sub_def orig_def k)
      with sub have "child = Elem t a n r1 []" "e1 = None" by simp_all
      then show ?thesis using p ct by (simp add: r1_def)
    qed
    have subeq: "(if recurse
           then filterIntersecting P I sh (Elem t a n (childRender P t a r) kids) [] keep recurse
           else (None, Elem t a n (childRender P t a r) kids, [])) = (e1, child, nested)"
      using sub unfolding sub_def orig_def r1_def .
    have unfoldSome: "filterChildren P I sh (Elem t a n r kids # cs) removed keep recurse
                        = (Some e, child # cs, removed1)" if "e1 = Some e" for e
      using that Inr
      by (simp add: subeq removed1_def del: filterIntersecting.simps)
    have unfoldNone: "filterChildren P I sh (Elem t a n r kids # cs) removed keep recurse =
            (case filterChildren P I sh cs removed1 keep recurse of
               (err, cs', removed') \<Rightarrow>
                 (err, if err \<noteq> None \<or> keep \<or> \<not> hit then child # cs' else cs',
                  removed'))"
      if "e1 = None"
      using that Inr
      by (simp add: subeq removed1_def del: filterIntersecting.simps)
    have r1ex: "\<exists>new. removed1 = removed @ new \<and> list_all (testsPositive P I sh) new"
    proof (cases hit)
      case True
      with child_hit have "removed1 = removed @ [child]" "list_all (testsPositive P I sh) [child]"
        by (simp_all add: removed1_def)
      then show ?thesis by blast
    next
      case False
      then have "removed1 = removed @ [] \<and> list_all (testsPositive P I sh) []"
        by (simp add: removed1_def)
      then show ?thesis by blast
    qed
    show ?thesis
    proof (cases e1)
      case (Some e)
      then have "filterChildren P I sh (Elem t a n r kids # cs) removed keep recurse
                   = (Some e, child # cs, removed1)"
        by (rule unfoldSome)
      with child_counts r1ex show ?thesis
        by (simp del: filterChildren.simps filterIntersecting.simps)
    next
      case None
      obtain err cs' removed' where
        res: "filterChildren P I sh cs removed1 keep recurse = (err, cs', removed')"
        by (cases "filterChildren P I sh cs removed1 keep recurse") auto
      have cn: "(child, nested) = (child, nested)" by simp
      note rest = "5.IH"(2) [OF Inr subeq [symmetric] None cn nokeep leaves(2),
                             folded removed1_def]
      from rest res obtain new where
        n1: "sum_list (map countNonPath cs') = sum_list (map countNonPath cs)" and
        n2: "sum_list (map (countMissed P I sh) cs') = sum_list (map (countMissed P I sh) cs)" and
        n3: "removed' = removed1 @ new" and n4: "list_all (testsPositive P I sh) new"
        by auto
      from r1ex obtain new1 where
        m1: "removed1 = removed @ new1" and m2: "list_all (testsPositive P I sh) new1"
        by blast
      have "removed' = removed @ (new1 @ new)" using n3 m1 by simp
      moreover have "list_all (testsPositive P I sh) (new1 @ new)" using n4 m2 by simp
      ultimately have ex:
        "\<exists>new. removed' = removed @ new \<and> list_all (testsPositive P I sh) new"
        by blast
      have result: "filterChildren P I sh (Elem t a n r kids # cs) removed keep recurse
              = (err, if err \<noteq> None \<or> \<not> hit then child # cs' else cs', removed')"
      proof -
        have "filterChildren P I sh (Elem t a n r kids # cs) removed keep recurse
                = (err, if err \<noteq> None \<or> keep \<or> \<not> hit then child # cs' else cs', removed')"
          by (simp only: unfoldNone [OF None] res prod.case)
        then show ?thesis using nokeep by (simp del: filterChildren.simps)
      qed
      show ?thesis
      proof (cases "err \<noteq> None \<or> \<not> hit")
        case True
        with result have "filterChildren P I sh (Elem t a n r kids # cs) removed keep recurse
              = (err, child # cs', removed')" by simp
        with child_counts n1 n2 ex show ?thesis
          by (simp del: filterChildren.simps filterIntersecting.simps)
      next
        case False
        then have h: hit by simp
        from False result have "filterChildren P I sh (Elem t a n r kids # cs) removed keep recurse
              = (err, cs', removed')" by simp
        with child_hit [OF h] child_counts n1 n2 ex show ?thesis
          by (simp del: filterChildren.simps filterIntersecting.simps)
      qed
    qed
  qed
qed

text \<open>
  Claim C7 says that for every tree the number of nodes that are not Path nodes, text
  leaves included, is unchanged.  A \<^verbatim>\<open>path\<close> element read from a file may have children,
  and they go with it when it is excised: in \<^verbatim>\<open><svg><path><title>note</title></path></svg>\<close>
  the root, the \<^verbatim>\<open>title\<close> and its text are three such nodes, and after the crossing
  segment only the root is left.
\<close>

theorem filterIntersecting_discards_children_of_path:
  "countNonPath titledDocument = 3
   \<and> countNonPath
        (fst (snd (filterIntersecting tablePath crossesStroke eraserLine titledDocument []
                     False True))) = 1"
  by (simp add: data_defs)

text \<open>
  Claim C7, amended.  For every tree whose Path nodes have no children (the invariant of
  the data model), every segment and either value of \<^verbatim>\<open>recurse\<close>,
  \<^verbatim>\<open>filterIntersecting\<close> with \<^verbatim>\<open>keepIntersecting = false\<close> leaves unchanged the number
  of nodes that are not Path nodes (text leaves included) and the number of Path nodes
  whose test is not positive; and every node it adds to \<^verbatim>\<open>removed\<close> is a Path node whose
  test against the segment was positive.  This holds whatever the libraries answer, also
  when \<^verbatim>\<open>ShapeInfo.path\<close> throws.
\<close>

theorem filterIntersecting_removes_only_hit_paths:
  assumes "pathsAreLeaves node"
  shows "countNonPath (fst (snd (filterIntersecting P I sh node removed False recurse)))
           = countNonPath node
       \<and> countMissed P I sh (fst (snd (filterIntersecting P I sh node removed False recurse)))
           = countMissed P I sh node
       \<and> (\<exists>new. snd (snd (filterIntersecting P I sh node removed False recurse))
                  = removed @ new
                \<and> list_all (testsPositive P I sh) new)"
  using filter_counts(1) [OF _ assms, of False P I sh removed recurse] by simp

theorem filterIntersecting_removes_only_hit_paths_witness:
  "pathsAreLeaves nestedDocument
   \<and> countNonPath nestedDocument = 2
   \<and> countNonPath
        (fst (snd (filterIntersecting tablePath crossesStroke eraserLine nestedDocument []
                     False True)))
       = countNonPath nestedDocument
   \<and> countMissed tablePath crossesStroke eraserLine
        (fst (snd (filterIntersecting tablePath crossesStroke eraserLine nestedDocument []
                     False True)))
       = countMissed tablePath crossesStroke eraserLine nestedDocument"
proof -
  have h: "pathsAreLeaves nestedDocument" by (simp add: data_defs)
  have c: "countNonPath nestedDocument = 2" by (simp add: data_defs)
  from filterIntersecting_removes_only_hit_paths
         [OF h, of tablePath crossesStroke eraserLine "[]" True] h c
  show ?thesis by blast
qed

subsection \<open>Resizing\<close>

lemma parseSizeString_480: "parseSizeString ''480x480'' = Some (480, 480)"
  by (simp add: parseSizeString_def field_def parseIntArg_def parse_defs)

text \<open>
  Claim C8.  Whatever the tree and the answer to the prompt, the handler leaves the live
  strokes and the tool alone, and of the scene tree (kind, attributes,
  \<^verbatim>\<open>noteSvgAttributes\<close>, cached geometry and children of every node) it changes only the
  \<^verbatim>\<open>width\<close> and \<^verbatim>\<open>height\<close> of the root, which it sets to the size it has parsed (a
  root without \<^verbatim>\<open>noteSvgAttributes\<close> makes the handler throw before it changes anything).  On a
  tree that has been drawn before, as the tree of the running program is, nothing else
  changes at all; on another tree the redraw stores the missing \<^verbatim>\<open>Path2D\<close> objects.  The
  tree is the old one when the answer is no size, and otherwise the old one with the
  root's width and height set, redrawn unless \<^verbatim>\<open>updateDocument\<close> throws.
\<close>

theorem resize_changes_only_root_size:
  "liveStrokes (snd (setupResizeButton_click answer R)) = liveStrokes R
   \<and> tool (snd (setupResizeButton_click answer R)) = tool R
   \<and> scene (forgetSize (svg (snd (setupResizeButton_click answer R))))
       = scene (forgetSize (svg R))
   \<and> (painted (svg R) \<longrightarrow>
         forgetSize (svg (snd (setupResizeButton_click answer R))) = forgetSize (svg R))
   \<and> (\<forall>sz. parseSizeString (case answer of None \<Rightarrow> [] | Some s \<Rightarrow> s) = Some sz
             \<and> hasNoteSvgAttributes (svg R) \<longrightarrow>
           rootSize (svg (snd (setupResizeButton_click answer R)))
             = Some (Some (fst sz), Some (snd sz)))
   \<and> (case parseSizeString (case answer of None \<Rightarrow> [] | Some s \<Rightarrow> s) of
         None \<Rightarrow> svg (snd (setupResizeButton_click answer R)) = svg R
       | Some sz \<Rightarrow>
           svg (snd (setupResizeButton_click answer R)) = svg R
         \<or> svg (snd (setupResizeButton_click answer R)) = setSize sz (svg R)
         \<or> svg (snd (setupResizeButton_click answer R)) = drawNode (setSize sz (svg R)) True)"
proof (intro conjI impI allI)
  show "liveStrokes (snd (setupResizeButton_click answer R)) = liveStrokes R"
    by (auto simp: setupResizeButton_click_def updateDocument_def drawBack_def Let_def
          split: option.splits)
  show "tool (snd (setupResizeButton_click answer R)) = tool R"
    by (auto simp: setupResizeButton_click_def updateDocument_def drawBack_def Let_def
          split: option.splits)
  show "scene (forgetSize (svg (snd (setupResizeButton_click answer R))))
          = scene (forgetSize (svg R))"
    by (auto simp: setupResizeButton_click_def updateDocument_def drawBack_def Let_def
          forgetSize_drawNode forgetSize_setSize split: option.splits)
  show "forgetSize (svg (snd (setupResizeButton_click answer R))) = forgetSize (svg R)"
    if p: "painted (svg R)"
  proof -
    have ps: "painted (setSize sz (svg R))" for sz
      using p by (cases "svg R") auto
    show ?thesis
      by (auto simp: setupResizeButton_click_def updateDocument_def drawBack_def Let_def
            forgetSize_setSize drawNode_painted [OF ps] split: option.splits)
  qed
  show "rootSize (svg (snd (setupResizeButton_click answer R)))
          = Some (Some (fst sz), Some (snd sz))"
    if "parseSizeString (case answer of None \<Rightarrow> [] | Some s \<Rightarrow> s) = Some sz
        \<and> hasNoteSvgAttributes (svg R)" for sz
  proof -
    have h: "hasNoteSvgAttributes (setSize sz (svg R))" using that by (cases "svg R") auto
    show ?thesis using that h
      by (auto simp: setupResizeButton_click_def updateDocument_def drawBack_def Let_def
            rootSize_setSize)
  qed
  show "case parseSizeString (case answer of None \<Rightarrow> [] | Some s \<Rightarrow> s) of
         None \<Rightarrow> svg (snd (setupResizeButton_click answer R)) = svg R
       | Some sz \<Rightarrow>
           svg (snd (setupResizeButton_click answer R)) = svg R
         \<or> svg (snd (setupResizeButton_click answer R)) = setSize sz (svg R)
         \<or> svg (snd (setupResizeButton_click answer R)) = drawNode (setSize sz (svg R)) True"
    by (auto simp: setupResizeButton_click_def updateDocument_def drawBack_def Let_def
          split: option.splits)
qed

lemma drawnRenderer_svg:
  "svg drawnRenderer
     = svgRoot [Elem ''path'' [(''d'', strokeD), (''fill'', ''none'')]
                  (Some (emptyNoteSvgAttrs\<lparr>stroke := Some ''#000'', strokeWidth := Some 2\<rparr>))
                  (Some (emptyRenderAttrs\<lparr>ra_path := Some (Path2D (Some strokeD))\<rparr>)) []]"
  by (simp add: renderer_defs data_defs)

theorem resize_changes_only_root_size_witness:
  "painted (svg drawnRenderer)
   \<and> parseSizeString ''480x480'' = Some (480, 480)
   \<and> hasNoteSvgAttributes (svg drawnRenderer)
   \<and> forgetSize (svg (snd (setupResizeButton_click (Some ''480x480'') drawnRenderer)))
       = forgetSize (svg drawnRenderer)
   \<and> rootSize (svg drawnRenderer) = Some (Some 360, Some 360)
   \<and> rootSize (svg (snd (setupResizeButton_click (Some ''480x480'') drawnRenderer)))
       = Some (Some 480, Some 480)
   \<and> children (svg (snd (setupResizeButton_click (Some ''480x480'') drawnRenderer)))
       = children (svg drawnRenderer)"
proof -
  have p: "painted (svg drawnRenderer)"
    by (simp add: drawnRenderer_svg svgRoot_def emptyRenderAttrs_def)
  have h: "hasNoteSvgAttributes (svg drawnRenderer)"
    by (simp add: drawnRenderer_svg svgRoot_def)
  have q: "parseSizeString (case Some ''480x480'' of None \<Rightarrow> [] | Some s \<Rightarrow> s) = Some (480, 480)
           \<and> hasNoteSvgAttributes (svg drawnRenderer)"
    using parseSizeString_480 h by simp
  have r: "rootSize (svg drawnRenderer) = Some (Some 360, Some 360)"
    by (simp add: drawnRenderer_svg svgRoot_def emptyNoteSvgAttrs_def)
  note T = resize_changes_only_root_size [of "Some ''480x480''" drawnRenderer]
  from T have f: "forgetSize (svg (snd (setupResizeButton_click (Some ''480x480'') drawnRenderer)))
                    = forgetSize (svg drawnRenderer)"
    using p by blast
  from T q have s: "rootSize (svg (snd (setupResizeButton_click (Some ''480x480'') drawnRenderer)))
                      = Some (Some (fst (480 :: int, 480 :: int)), Some (snd (480 :: int, 480 :: int)))"
    by blast
  have c: "children (svg (snd (setupResizeButton_click (Some ''480x480'') drawnRenderer)))
             = children (svg drawnRenderer)"
    using f by (cases "svg (snd (setupResizeButton_click (Some ''480x480'') drawnRenderer))";
                cases "svg drawnRenderer") auto
  from p h f r s c parseSizeString_480 show ?thesis by simp
qed

subsection \<open>parseSizeString\<close>

text \<open>
  Claim C10.  When the string has at least two fields between its \<^verbatim>\<open>x\<close> separators and
  \<^verbatim>\<open>parseInt\<close> reads an integer from each of the first two (trimmed), \<^verbatim>\<open>parseSizeString\<close>
  returns these two integers, whatever their sign: there is no check that a dimension is
  positive.
\<close>

theorem parseSizeString_accepts_any_integers:
  assumes "splitOn CHR ''x'' sizeStr = f0 # f1 # rest"
      and "parseInt (trim f0) = Some w"
      and "parseInt (trim f1) = Some h"
  shows "parseSizeString sizeStr = Some (w, h)"
  using assms by (simp add: parseSizeString_def field_def parseIntArg_def)

theorem parseSizeString_accepts_any_integers_witness:
  "splitOn CHR ''x'' ''-5x10'' = [''-5'', ''10'']
   \<and> parseInt (trim ''-5'') = Some (- 5) \<and> parseInt (trim ''10'') = Some 10
   \<and> parseSizeString ''-5x10'' = Some (- 5, 10)
   \<and> splitOn CHR ''x'' ''0x0'' = [''0'', ''0'']
   \<and> parseInt (trim ''0'') = Some 0
   \<and> parseSizeString ''0x0'' = Some (0, 0)"
proof -
  have s1: "splitOn CHR ''x'' ''-5x10'' = ''-5'' # ''10'' # []" by simp
  have a1: "parseInt (trim ''-5'') = Some (- 5)" by (simp add: parse_defs)
  have b1: "parseInt (trim ''10'') = Some 10" by (simp add: parse_defs)
  have s2: "splitOn CHR ''x'' ''0x0'' = ''0'' # ''0'' # []" by simp
  have a2: "parseInt (trim ''0'') = Some 0" by (simp add: parse_defs)
  from parseSizeString_accepts_any_integers [OF s1 a1 b1]
       parseSizeString_accepts_any_integers [OF s2 a2 a2]
       s1 a1 b1 s2 a2
  show ?thesis by simp
qed

end
